theory Spec2Isabelle
  imports Complex_Main "HOL-Library.Word"
begin

section \<open>Frames and the video acquisition wrapper\<close>

text \<open>
  A frame is the array handed back by the capture device: a list of rows, each row a list
  of pixels. The pixel type is left open for the colour frame (a BGR triple in the source);
  the grey image computed from it has unsigned 8-bit samples.
\<close>

type_synonym 'a frame = "'a list list"

type_synonym gray = "8 word list list"

definition frame_height :: "'a frame \<Rightarrow> nat" where
  "frame_height f = length f"

definition frame_width :: "'a frame \<Rightarrow> nat" where
  "frame_width f = (case f of [] \<Rightarrow> 0 | r # _ \<Rightarrow> length r)"

text \<open>An array has a shape: every row has the width of the first one.\<close>

definition rect :: "'a frame \<Rightarrow> bool" where
  "rect f = list_all (\<lambda>r. length r = frame_width f) f"

datatype error = RuntimeError string | AttributeError string

text \<open>
  Modelled from the spec: \<open>cv2.flip\<close>, which belongs to OpenCV and is not part of the
  source. The horizontal flip of the spec (flip code 1, positive) mirrors every row, the
  vertical flip (flip code 0) reverses the order of the rows, and a negative code does both.
\<close>

definition flip :: "'a frame \<Rightarrow> int \<Rightarrow> 'a frame" where
  "flip src flipCode =
     (if flipCode = 0 then rev src
      else if 0 < flipCode then map rev src
      else rev (map rev src))"

text \<open>
  The rotation by 180 degrees, written by coordinates: the sample at row \<open>r\<close> and column
  \<open>c\<close> of the result is the one at row \<open>H - 1 - r\<close> and column \<open>W - 1 - c\<close>.
\<close>

definition rot180 :: "'a frame \<Rightarrow> 'a frame" where
  "rot180 f =
     map (\<lambda>r. map (\<lambda>c. f ! (frame_height f - 1 - r) ! (frame_width f - 1 - c))
                [0..<frame_width f])
         [0..<frame_height f]"

text \<open>\<open>Webcam\<close>: the two flags of the wrapper; the capture handle is the device's.\<close>

record webcam =
  flip_h :: bool
  flip_v :: bool

text \<open>
  \<open>Webcam.read\<close>. The second argument is what \<open>self.cap.read()\<close> returned on this call:
  the success flag and the frame.
\<close>

definition read :: "webcam \<Rightarrow> bool \<times> 'a frame \<Rightarrow> error + 'a frame" where
  "read w cap =
     (let (ok, frame) = cap in
      if \<not> ok then Inl (RuntimeError ''Frame non disponibile'')
      else
        let frame = (if flip_h w then flip frame 1 else frame);
            frame = (if flip_v w then flip frame 0 else frame)
        in Inr frame)"

section \<open>The region of interest and its reduction\<close>

text \<open>
  The rectangle of \<open>pg.RectROI\<close>: its position and its size, both pairs of floats of the
  toolkit. Python floats are modelled by reals throughout: rounding errors, overflow and
  NaN are outside the model.
\<close>

record region =
  pos_x :: real
  pos_y :: real
  size_w :: real
  size_h :: real

text \<open>A two-dimensional numeric array as a list of rows.\<close>

type_synonym ndarray = "real list list"

definition size_nd :: "ndarray \<Rightarrow> nat" where
  "size_nd a = length a * frame_width a"

text \<open>\<open>a.mean(axis=0)\<close>: one mean per column, taken over the rows.\<close>

definition mean_axis0 :: "ndarray \<Rightarrow> real list" where
  "mean_axis0 a =
     map (\<lambda>c. (\<Sum>row\<leftarrow>a. row ! c) / real (length a)) [0..<frame_width a]"

text \<open>\<open>np.arange(n)\<close>, the indices embedded in the reals.\<close>

definition arange :: "nat \<Rightarrow> real list" where
  "arange n = map real [0..<n]"

datatype reduction = Empty | Profile "real list"

text \<open>
  Lines 146 to 149 of \<open>update_frame\<close>: the region is extracted by the toolkit's
  \<open>getArrayRegion\<close>, passed here as \<open>gar\<close> together with the image item it is called with;
  no array, or an array without samples, ends the reduction, and otherwise the profile is
  the mean over the rows.
\<close>

definition reduce ::
  "(region \<Rightarrow> gray \<Rightarrow> gray option \<Rightarrow> ndarray option) \<Rightarrow> region \<Rightarrow> gray \<Rightarrow> gray option \<Rightarrow> reduction"
where
  "reduce gar r g item =
     (case gar r g item of
        None \<Rightarrow> Empty
      | Some roi_img \<Rightarrow>
          if size_nd roi_img = 0 then Empty else Profile (mean_axis0 roi_img))"

subsection \<open>The extraction of the region, from the spec\<close>

text \<open>A coordinate brought back into the interval from \<open>lo\<close> to \<open>hi\<close>.\<close>

definition clamp :: "real \<Rightarrow> real \<Rightarrow> real \<Rightarrow> real" where
  "clamp lo hi v = min hi (max lo v)"

text \<open>
  The four edges of the region clamped to the frame \<open>[0, 0]..[width, height]\<close>: each edge
  is brought back into the frame, so that a region that lies outside the frame is clamped
  to a rectangle of zero area on the border.
\<close>

definition clamp_left :: "gray \<Rightarrow> region \<Rightarrow> real" where
  "clamp_left g r = clamp 0 (real (frame_width g)) (pos_x r)"

definition clamp_top :: "gray \<Rightarrow> region \<Rightarrow> real" where
  "clamp_top g r = clamp 0 (real (frame_height g)) (pos_y r)"

definition clamp_right :: "gray \<Rightarrow> region \<Rightarrow> real" where
  "clamp_right g r = clamp 0 (real (frame_width g)) (pos_x r + size_w r)"

definition clamp_bottom :: "gray \<Rightarrow> region \<Rightarrow> real" where
  "clamp_bottom g r = clamp 0 (real (frame_height g)) (pos_y r + size_h r)"

definition clamped_width :: "gray \<Rightarrow> region \<Rightarrow> real" where
  "clamped_width g r = clamp_right g r - clamp_left g r"

definition clamped_height :: "gray \<Rightarrow> region \<Rightarrow> real" where
  "clamped_height g r = clamp_bottom g r - clamp_top g r"

definition clamped_area :: "gray \<Rightarrow> region \<Rightarrow> real" where
  "clamped_area g r = clamped_width g r * clamped_height g r"

text \<open>
  Modelled from the spec: the extraction of the region from the frame, which the source
  leaves to the toolkit's \<open>ROI.getArrayRegion\<close> (not part of the source). Following
  section 4.2 of the spec, the region is clamped to the frame; a clamped region of zero or
  negative area, or narrower than one pixel column, gives no data, and no other region does.
  Otherwise the columns are as many as the clamped width rounded to an integer (section 3),
  from the column that holds the left edge, and the rows are the rows of the frame that
  the clamped row span meets, from the row that holds the top edge to the one that holds
  the bottom edge: a region of positive height always has a row.
\<close>

definition getArrayRegion_spec :: "region \<Rightarrow> gray \<Rightarrow> gray option \<Rightarrow> ndarray option" where
  "getArrayRegion_spec r g item =
     (if clamped_area g r \<le> 0 \<or> clamped_width g r < 1 then None
      else Some
        (map (\<lambda>row. map (\<lambda>p. real (unat p))
                     (take (nat (round (clamped_width g r))) (drop (nat \<lfloor>clamp_left g r\<rfloor>) row)))
             (take (nat (\<lceil>clamp_bottom g r\<rceil> - \<lfloor>clamp_top g r\<rfloor>))
                   (drop (nat \<lfloor>clamp_top g r\<rfloor>) g))))"

text \<open>A region fully inside the frame.\<close>

definition inside :: "gray \<Rightarrow> region \<Rightarrow> bool" where
  "inside g r \<longleftrightarrow>
     0 \<le> pos_x r \<and> 0 \<le> pos_y r \<and> 0 \<le> size_w r \<and> 0 \<le> size_h r
     \<and> pos_x r + size_w r \<le> real (frame_width g)
     \<and> pos_y r + size_h r \<le> real (frame_height g)"


section \<open>The main window\<close>

datatype axis_label = Pixel | Wavelength_nm

text \<open>
  The attributes of \<open>SpectrometerGUI\<close> that the methods read or write, and the state of
  the widgets they query: the rectangle of the ROI, the image shown, the data of the curve
  and the label of its bottom axis, the positions of the two cursor lines, the values of
  the two spin boxes, the two check boxes and the camera wrapper. \<open>slope\<close> and
  \<open>intercept\<close> do not exist before the first calibration (\<open>None\<close>); \<open>px_to_nm\<close> tells
  whether the lambda of line 167 has been assigned.
\<close>

record gui =
  roi :: region
  img_view :: "gray option"
  spec_curve :: "real list \<times> real list"
  bottom_label :: axis_label
  l1 :: real
  l2 :: real
  spin_l1 :: real
  spin_l2 :: real
  chk_flip_h :: bool
  chk_flip_v :: bool
  cam :: webcam
  calib_set :: bool
  slope :: "real option"
  intercept :: "real option"
  px_to_nm :: bool

text \<open>
  The attributes as the statements of \<open>__init__\<close> and \<open>_build_controls\<close> assign them:
  the ROI at (200, 200) of size 200 by 100, an empty curve over a bottom axis labelled in
  pixels, both cursor lines at the toolkit's default position 0, the spin boxes at 436 and
  546, no flip, no calibration. This is the state of a window whose construction has gone
  through; \<open>gui_init\<close> below is the constructor with its error paths.
\<close>

definition init_gui :: gui where
  "init_gui =
     \<lparr>roi = \<lparr>pos_x = 200, pos_y = 200, size_w = 200, size_h = 100\<rparr>,
      img_view = None,
      spec_curve = ([], []),
      bottom_label = Pixel,
      l1 = 0, l2 = 0,
      spin_l1 = 436, spin_l2 = 546,
      chk_flip_h = False, chk_flip_v = False,
      cam = \<lparr>flip_h = False, flip_v = False\<rparr>,
      calib_set = False,
      slope = None, intercept = None, px_to_nm = False\<rparr>"

text \<open>
  \<open>_build_controls\<close> reads \<open>self.cam\<close> at line 116, for the initial value of the first
  slider. The argument is the attribute as it stands when the method is called: \<open>None\<close>
  while it has not been assigned, which raises \<open>AttributeError\<close>.
\<close>

definition build_controls :: "webcam option \<Rightarrow> error option" where
  "build_controls c = (case c of None \<Rightarrow> Some (AttributeError ''cam'') | Some w \<Rightarrow> None)"

text \<open>
  \<open>__init__\<close>: \<open>_build_controls\<close> is called at line 90, before line 94 assigns
  \<open>self.cam\<close>; \<open>Webcam(0)\<close> raises when the device cannot be opened, which \<open>opened\<close>
  tells. An exception leaves the constructor and no window exists.
\<close>

definition gui_init :: "bool \<Rightarrow> error + gui" where
  "gui_init opened =
     (case build_controls None of
        Some e \<Rightarrow> Inl e
      | None \<Rightarrow>
          if \<not> opened then Inl (RuntimeError ''Impossibile aprire la webcam'')
          else Inr init_gui)"

text \<open>
  What the libraries give on one tick: the result of \<open>cap.read()\<close>, the grey conversion
  \<open>cv2.cvtColor\<close> and the toolkit's \<open>getArrayRegion\<close>.
\<close>

record 'a env =
  cap_read :: "bool \<times> 'a frame"
  cvtColor :: "'a frame \<Rightarrow> gray"
  getArrayRegion :: "region \<Rightarrow> gray \<Rightarrow> gray option \<Rightarrow> ndarray option"

text \<open>\<open>_set_flip\<close>: both flags of the camera are read from the check boxes.\<close>

definition set_flip :: "gui \<Rightarrow> gui" where
  "set_flip s = s\<lparr>cam := (cam s)\<lparr>flip_h := chk_flip_h s, flip_v := chk_flip_v s\<rparr>\<rparr>"

text \<open>
  The lambda of line 167, \<open>lambda px: self.slope * px + self.intercept\<close>: it reads the two
  attributes when it is called. A missing attribute raises \<open>AttributeError\<close>.
\<close>

definition px_to_nm_call :: "gui \<Rightarrow> real \<Rightarrow> error + real" where
  "px_to_nm_call s px =
     (if \<not> px_to_nm s then Inl (AttributeError ''px_to_nm'')
      else case slope s of
        None \<Rightarrow> Inl (AttributeError ''slope'')
      | Some a \<Rightarrow>
          (case intercept s of
             None \<Rightarrow> Inl (AttributeError ''intercept'')
           | Some b \<Rightarrow> Inr (a * px + b)))"

text \<open>The same lambda called on an array: the arithmetic is elementwise.\<close>

definition px_to_nm_array :: "gui \<Rightarrow> real list \<Rightarrow> error + real list" where
  "px_to_nm_array s x =
     (if \<not> px_to_nm s then Inl (AttributeError ''px_to_nm'')
      else case slope s of
        None \<Rightarrow> Inl (AttributeError ''slope'')
      | Some a \<Rightarrow>
          (case intercept s of
             None \<Rightarrow> Inl (AttributeError ''intercept'')
           | Some b \<Rightarrow> Inr (map (\<lambda>px. a * px + b) x)))"

text \<open>
  Lines 150 to 155 of \<open>update_frame\<close>: the axis values for a profile of \<open>n\<close> samples and
  the label of the bottom axis.
\<close>

definition axis_for :: "gui \<Rightarrow> nat \<Rightarrow> error + real list \<times> axis_label" where
  "axis_for s n =
     (let x = arange n in
      if calib_set s then
        (case px_to_nm_array s x of
           Inl e \<Rightarrow> Inl e
         | Inr x' \<Rightarrow> Inr (x', Wavelength_nm))
      else Inr (x, Pixel))"

text \<open>
  \<open>update_frame\<close>, one tick of the timer. The result is the exception that left the method,
  if any, and the state at that moment.
\<close>

definition update_frame :: "'a env \<Rightarrow> gui \<Rightarrow> error option \<times> gui" where
  "update_frame e s =
     (case read (cam s) (cap_read e) of
        Inl err \<Rightarrow> (Some err, s)
      | Inr frame \<Rightarrow>
          let gray = cvtColor e frame;
              s = s\<lparr>img_view := Some (transpose gray)\<rparr>
          in
            (case reduce (getArrayRegion e) (roi s) gray (img_view s) of
               Empty \<Rightarrow> (None, s)
             | Profile spec \<Rightarrow>
                 (case axis_for s (length spec) of
                    Inl err \<Rightarrow> (Some err, s)
                  | Inr (x, lbl) \<Rightarrow>
                      (None, s\<lparr>bottom_label := lbl, spec_curve := (x, spec)\<rparr>))))"

text \<open>\<open>apply_calib\<close>, the handler of the calibration button.\<close>

definition apply_calib :: "gui \<Rightarrow> gui" where
  "apply_calib s =
     (let px1 = l1 s; px2 = l2 s in
      if px1 = px2 then s
      else
        let la1 = spin_l1 s; la2 = spin_l2 s;
            sl = (la2 - la1) / (px2 - px1);
            ic = la1 - sl * px1
        in s\<lparr>slope := Some sl, intercept := Some ic, px_to_nm := True, calib_set := True\<rparr>)"

subsection \<open>The operations on the window\<close>

text \<open>
  What can happen to the window between two returns to the event loop: a tick of the timer,
  a click on the calibration button, and the operator's edits of the widgets (the ROI, the
  two cursor lines, the two spin boxes, the two check boxes, whose change calls
  \<open>_set_flip\<close>). An exception that leaves \<open>update_frame\<close> goes to the event loop, which is
  the toolkit's and not part of the source: the window is then in the state the method
  left it in, and the next operation starts from that state.
\<close>

datatype 'a event =
    Tick "'a env"
  | Apply
  | Roi_edit region
  | Cursor1_move real
  | Cursor2_move real
  | Spin1_edit real
  | Spin2_edit real
  | Flip_h_toggle bool
  | Flip_v_toggle bool

fun step :: "'a event \<Rightarrow> gui \<Rightarrow> gui" where
  "step (Tick e) s = snd (update_frame e s)"
| "step Apply s = apply_calib s"
| "step (Roi_edit r) s = s\<lparr>roi := r\<rparr>"
| "step (Cursor1_move p) s = s\<lparr>l1 := p\<rparr>"
| "step (Cursor2_move p) s = s\<lparr>l2 := p\<rparr>"
| "step (Spin1_edit v) s = s\<lparr>spin_l1 := v\<rparr>"
| "step (Spin2_edit v) s = s\<lparr>spin_l2 := v\<rparr>"
| "step (Flip_h_toggle b) s = set_flip (s\<lparr>chk_flip_h := b\<rparr>)"
| "step (Flip_v_toggle b) s = set_flip (s\<lparr>chk_flip_v := b\<rparr>)"

fun run :: "'a event list \<Rightarrow> gui \<Rightarrow> gui" where
  "run [] s = s"
| "run (ev # evs) s = run evs (step ev s)"

text \<open>The calibration model of the spec, read off the attributes.\<close>

datatype calibration_model = Unset | Linear real real

definition model_of :: "gui \<Rightarrow> calibration_model" where
  "model_of s =
     (if calib_set s then
        (case (slope s, intercept s) of
           (Some a, Some b) \<Rightarrow> Linear a b
         | _ \<Rightarrow> Unset)
      else Unset)"

subsection \<open>The attributes of the calibration\<close>

text \<open>
  The attributes read by a calibrated tick exist: wherever the flag is set, the lambda and
  both coefficients have been assigned. The window starts in such a state and every
  operation keeps it, so the \<open>AttributeError\<close> of the model is never raised.
\<close>

definition calib_attrs :: "gui \<Rightarrow> bool" where
  "calib_attrs s \<longleftrightarrow>
     \<not> calib_set s \<or> (px_to_nm s \<and> slope s \<noteq> None \<and> intercept s \<noteq> None)"

section \<open>Concrete frames, regions and devices\<close>

text \<open>
  A frame of 4 rows and 10 columns whose column \<open>c\<close> holds \<open>10 * c\<close>, the region
  (0, 0, 10, 4) over it, a region of the same width and no height, a region of the same
  height and three fifths of a column, a device that delivers
  no frame and a device that delivers the frame above; both devices are grey cameras, whose
  conversion to grey is the identity, and extract regions as the spec describes.
\<close>

definition ramp_row :: "8 word list" where
  "ramp_row = [0, 10, 20, 30, 40, 50, 60, 70, 80, 90]"

definition ramp_frame :: gray where
  "ramp_frame = [ramp_row, ramp_row, ramp_row, ramp_row]"

definition ramp_region :: region where
  "ramp_region = \<lparr>pos_x = 0, pos_y = 0, size_w = 10, size_h = 4\<rparr>"

definition flat_region :: region where
  "flat_region = \<lparr>pos_x = 0, pos_y = 0, size_w = 10, size_h = 0\<rparr>"

definition narrow_region :: region where
  "narrow_region = \<lparr>pos_x = 0, pos_y = 0, size_w = 3 / 5, size_h = 4\<rparr>"

definition no_frame :: "8 word env" where
  "no_frame = \<lparr>cap_read = (False, []), cvtColor = id, getArrayRegion = getArrayRegion_spec\<rparr>"

definition ramp_env :: "8 word env" where
  "ramp_env = \<lparr>cap_read = (True, ramp_frame), cvtColor = id, getArrayRegion = getArrayRegion_spec\<rparr>"

section \<open>Flips\<close>

lemma frame_width_map_rev: "frame_width (map rev f) = frame_width f"
  by (cases f) (simp_all add: frame_width_def)

lemma rect_nth_length: "rect f \<Longrightarrow> i < length f \<Longrightarrow> length (f ! i) = frame_width f"
  by (simp add: rect_def list_all_length)

lemma rev_map_rev_rot180:
  assumes "rect f"
  shows "rev (map rev f) = rot180 f"
proof (rule nth_equalityI)
  show "length (rev (map rev f)) = length (rot180 f)"
    by (simp add: rot180_def frame_height_def)
next
  fix i assume i: "i < length (rev (map rev f))"
  then have il: "i < length f" by simp
  then have j: "length f - Suc i < length f" by simp
  have len: "length (f ! (length f - Suc i)) = frame_width f"
    using assms j by (rule rect_nth_length)
  have "rev (map rev f) ! i = rev (f ! (length f - Suc i))"
    using il by (simp add: rev_nth)
  also have "\<dots> = map (\<lambda>c. f ! (length f - Suc i) ! (frame_width f - 1 - c)) [0..<frame_width f]"
    by (rule nth_equalityI) (simp_all add: len rev_nth)
  also have "\<dots> = rot180 f ! i"
    using il by (simp add: rot180_def frame_height_def)
  finally show "rev (map rev f) ! i = rot180 f ! i" .
qed

text \<open>
  C7. Flipping horizontally twice gives the frame back. \<open>read\<close> applies the horizontal flip
  first and the vertical flip second; with both flags set the frame delivered is the
  rotation by 180 degrees of the captured one, and flipping vertically first and
  horizontally second gives the same frame.
\<close>

theorem flip_composition:
  "flip (flip f 1) 1 = f
   \<and> read \<lparr>flip_h = True, flip_v = True\<rparr> (True, f) = Inr (flip (flip f 1) 0)
   \<and> read \<lparr>flip_h = True, flip_v = False\<rparr> (True, f) = Inr (flip f 1)
   \<and> read \<lparr>flip_h = False, flip_v = True\<rparr> (True, f) = Inr (flip f 0)
   \<and> read \<lparr>flip_h = False, flip_v = False\<rparr> (True, f) = Inr f
   \<and> flip (flip f 1) 0 = flip (flip f 0) 1
   \<and> (rect f \<longrightarrow> flip (flip f 1) 0 = rot180 f \<and> flip (flip f 0) 1 = rot180 f)"
proof -
  have hh: "flip (flip f 1) 1 = f"
    by (simp add: flip_def o_def)
  have comm: "flip (flip f 1) 0 = flip (flip f 0) 1"
    by (simp add: flip_def rev_map)
  have rot: "rect f \<longrightarrow> flip (flip f 1) 0 = rot180 f"
    by (simp add: flip_def rev_map_rev_rot180)
  show ?thesis
    using hh comm rot by (simp add: read_def)
qed

theorem flip_composition_witness:
  "rect [[1, 2, 3], [4, 5, 6 :: nat]]
   \<and> read \<lparr>flip_h = True, flip_v = True\<rparr> (True, [[1, 2, 3], [4, 5, 6 :: nat]])
       = Inr [[6, 5, 4], [3, 2, 1]]
   \<and> rot180 [[1, 2, 3], [4, 5, 6 :: nat]] = [[6, 5, 4], [3, 2, 1]]
   \<and> flip (flip [[1, 2, 3], [4, 5, 6 :: nat]] 0) 1 = [[6, 5, 4], [3, 2, 1]]"
proof -
  have r: "rect [[1, 2, 3], [4, 5, 6 :: nat]]"
    by (simp add: rect_def frame_width_def)
  have v: "flip (flip [[1, 2, 3], [4, 5, 6 :: nat]] 1) 0 = [[6, 5, 4], [3, 2, 1]]"
    by (simp add: flip_def)
  show ?thesis
    using r v flip_composition [of "[[1, 2, 3], [4, 5, 6 :: nat]]"] by simp
qed

section \<open>Two-point calibration\<close>

text \<open>
  C3. Whatever the calibration state, when the two cursor lines stand at exactly the same
  position the calibration button changes nothing: the state after \<open>apply_calib\<close> is the
  state before it, and so is the calibration model.
\<close>

theorem apply_calib_rejects:
  "l1 s = l2 s \<Longrightarrow> apply_calib s = s \<and> model_of (apply_calib s) = model_of s"
  by (simp add: apply_calib_def)

theorem apply_calib_rejects_witness:
  "l1 (init_gui\<lparr>l1 := 150, l2 := 150\<rparr>) = l2 (init_gui\<lparr>l1 := 150, l2 := 150\<rparr>)
   \<and> apply_calib (init_gui\<lparr>l1 := 150, l2 := 150\<rparr>) = init_gui\<lparr>l1 := 150, l2 := 150\<rparr>
   \<and> model_of (apply_calib (init_gui\<lparr>l1 := 150, l2 := 150\<rparr>)) = Unset"
proof -
  have m: "model_of (init_gui\<lparr>l1 := 150, l2 := 150\<rparr>) = Unset"
    by (simp add: model_of_def init_gui_def)
  show ?thesis
    using m apply_calib_rejects [of "init_gui\<lparr>l1 := 150, l2 := 150\<rparr>"] by simp
qed

text \<open>The line through two points takes the second value at the second position.\<close>

lemma line_through_second:
  fixes p1 p2 w1 w2 :: real
  assumes "p2 - p1 \<noteq> 0"
  shows "(w2 - w1) / (p2 - p1) * p2 + (w1 - (w2 - w1) / (p2 - p1) * p1) = w2"
proof -
  define k where "k = (w2 - w1) / (p2 - p1)"
  have "k * (p2 - p1) = w2 - w1"
    using assms by (simp add: k_def)
  then have "k * p2 + (w1 - k * p1) = w2"
    by (simp add: right_diff_distrib)
  then show ?thesis by (simp add: k_def)
qed

text \<open>
  C2. When the two cursor lines stand at distinct positions \<open>p1\<close> and \<open>p2\<close>, with the
  wavelengths \<open>w1\<close> and \<open>w2\<close> in the spin boxes, \<open>apply_calib\<close> installs the slope
  \<open>(w2 - w1) / (p2 - p1)\<close> and the intercept \<open>w1 - slope * p1\<close>, and the mapping installed
  sends \<open>p1\<close> to \<open>w1\<close> and \<open>p2\<close> to \<open>w2\<close>. The equalities are those of real arithmetic,
  which the floats of the source follow up to rounding. For the points (100, 436) and
  (300, 546) the slope is 0.55, the intercept 381 and the pixel 200 is sent to 491.
\<close>

theorem apply_calib_fit:
  assumes "l1 s \<noteq> l2 s"
  shows "slope (apply_calib s) = Some ((spin_l2 s - spin_l1 s) / (l2 s - l1 s))
     \<and> intercept (apply_calib s)
         = Some (spin_l1 s - (spin_l2 s - spin_l1 s) / (l2 s - l1 s) * l1 s)
     \<and> model_of (apply_calib s)
         = Linear ((spin_l2 s - spin_l1 s) / (l2 s - l1 s))
                  (spin_l1 s - (spin_l2 s - spin_l1 s) / (l2 s - l1 s) * l1 s)
     \<and> px_to_nm_call (apply_calib s) (l1 s) = Inr (spin_l1 s)
     \<and> px_to_nm_call (apply_calib s) (l2 s) = Inr (spin_l2 s)"
proof -
  let ?a = "(spin_l2 s - spin_l1 s) / (l2 s - l1 s)"
  let ?b = "spin_l1 s - ?a * l1 s"
  have ap: "apply_calib s
      = s\<lparr>slope := Some ?a, intercept := Some ?b, px_to_nm := True, calib_set := True\<rparr>"
    using assms by (simp add: apply_calib_def Let_def)
  have d: "l2 s - l1 s \<noteq> 0" using assms by simp
  have p2: "?a * l2 s + ?b = spin_l2 s"
    using d by (rule line_through_second)
  have p1: "?a * l1 s + ?b = spin_l1 s"
    by simp
  show ?thesis
    unfolding ap using p1 p2 by (simp add: px_to_nm_call_def model_of_def)
qed

theorem apply_calib_fit_witness:
  "l1 (init_gui\<lparr>l1 := 100, l2 := 300\<rparr>) \<noteq> l2 (init_gui\<lparr>l1 := 100, l2 := 300\<rparr>)
   \<and> spin_l1 (init_gui\<lparr>l1 := 100, l2 := 300\<rparr>) = 436
   \<and> spin_l2 (init_gui\<lparr>l1 := 100, l2 := 300\<rparr>) = 546
   \<and> model_of (apply_calib (init_gui\<lparr>l1 := 100, l2 := 300\<rparr>)) = Linear 0.55 381
   \<and> px_to_nm_call (apply_calib (init_gui\<lparr>l1 := 100, l2 := 300\<rparr>)) 100 = Inr 436
   \<and> px_to_nm_call (apply_calib (init_gui\<lparr>l1 := 100, l2 := 300\<rparr>)) 300 = Inr 546
   \<and> px_to_nm_call (apply_calib (init_gui\<lparr>l1 := 100, l2 := 300\<rparr>)) 200 = Inr 491"
proof -
  have v: "px_to_nm_call (apply_calib (init_gui\<lparr>l1 := 100, l2 := 300\<rparr>)) 200 = Inr 491"
    by (simp add: px_to_nm_call_def apply_calib_def init_gui_def)
  show ?thesis
    using v apply_calib_fit [of "init_gui\<lparr>l1 := 100, l2 := 300\<rparr>"]
    by (simp add: init_gui_def)
qed

section \<open>The axis of the curve\<close>

lemma arange_length: "length (arange n) = n"
  by (simp add: arange_def)

lemma arange_nth: "i < n \<Longrightarrow> arange n ! i = real i"
  by (simp add: arange_def)

text \<open>
  C4. For a profile of \<open>n\<close> samples: without calibration the axis is \<open>0, 1, ..., n - 1\<close> and
  the bottom axis is labelled in pixels; with the calibration \<open>slope\<close>, \<open>intercept\<close> installed
  the axis has \<open>n\<close> values, the one at index \<open>i\<close> is \<open>slope * i + intercept\<close>, and the bottom
  axis is labelled as a wavelength in nm.
\<close>

theorem axis_for_model:
  "(\<not> calib_set s \<longrightarrow> axis_for s n = Inr (map real [0..<n], Pixel))
   \<and> (calib_set s \<and> px_to_nm s \<and> slope s = Some a \<and> intercept s = Some b \<longrightarrow>
        (\<exists>x. axis_for s n = Inr (x, Wavelength_nm) \<and> length x = n
             \<and> (\<forall>i<n. x ! i = a * real i + b)))"
  by (simp add: axis_for_def px_to_nm_array_def arange_def)

theorem axis_for_model_witness:
  "\<not> calib_set init_gui
   \<and> axis_for init_gui 4 = Inr ([0, 1, 2, 3], Pixel)
   \<and> calib_set (apply_calib (init_gui\<lparr>l1 := 100, l2 := 300\<rparr>))
   \<and> px_to_nm (apply_calib (init_gui\<lparr>l1 := 100, l2 := 300\<rparr>))
   \<and> slope (apply_calib (init_gui\<lparr>l1 := 100, l2 := 300\<rparr>)) = Some 0.55
   \<and> intercept (apply_calib (init_gui\<lparr>l1 := 100, l2 := 300\<rparr>)) = Some 381
   \<and> axis_for (apply_calib (init_gui\<lparr>l1 := 100, l2 := 300\<rparr>)) 3
        = Inr ([381, 381.55, 382.1], Wavelength_nm)"
proof -
  have u: "[0..<4] = [0, 1, 2, 3]" "[0..<3] = [0, 1, 2]"
    by (simp_all add: upt_rec)
  have c: "axis_for (apply_calib (init_gui\<lparr>l1 := 100, l2 := 300\<rparr>)) 3
        = Inr ([381, 381.55, 382.1], Wavelength_nm)"
    by (simp add: axis_for_def px_to_nm_array_def arange_def apply_calib_def init_gui_def u)
  show ?thesis
    using c u axis_for_model [of init_gui 4]
      axis_for_model [of "apply_calib (init_gui\<lparr>l1 := 100, l2 := 300\<rparr>)" 3 "0.55" 381]
    by (simp add: init_gui_def apply_calib_def)
qed

section \<open>The tick of the timer\<close>



text \<open>
  The constructor as written does not build a window: \<open>_build_controls\<close> reads the camera
  before it is assigned.
\<close>

lemma gui_init_raises: "gui_init opened = Inl (AttributeError ''cam'')"
  by (simp add: gui_init_def build_controls_def)

section \<open>What each operation leaves alone\<close>

lemma axis_for_label:
  "axis_for s n = Inr (x, lbl) \<Longrightarrow> lbl = (if calib_set s then Wavelength_nm else Pixel)"
  by (auto simp: axis_for_def Let_def split: if_splits sum.splits)

lemma px_to_nm_array_img_view: "px_to_nm_array (s\<lparr>img_view := v\<rparr>) x = px_to_nm_array s x"
  by (simp add: px_to_nm_array_def split: option.splits)

lemma axis_for_img_view: "axis_for (s\<lparr>img_view := v\<rparr>) n = axis_for s n"
  by (simp add: axis_for_def Let_def px_to_nm_array_img_view)

text \<open>A tick writes the image, the axis label and the curve, and nothing else.\<close>

lemma update_frame_writes:
  "\<exists>v lbl c. snd (update_frame e s) = s\<lparr>img_view := v, bottom_label := lbl, spec_curve := c\<rparr>
      \<and> (lbl = bottom_label s \<or> lbl = (if calib_set s then Wavelength_nm else Pixel))"
proof (cases "read (cam s) (cap_read e)")
  case (Inl err)
  then have "snd (update_frame e s) = s" by (simp add: update_frame_def)
  then have "snd (update_frame e s)
      = s\<lparr>img_view := img_view s, bottom_label := bottom_label s, spec_curve := spec_curve s\<rparr>"
    by simp
  then show ?thesis by blast
next
  case (Inr frame)
  let ?g = "cvtColor e frame"
  let ?s = "s\<lparr>img_view := Some (transpose ?g)\<rparr>"
  show ?thesis
  proof (cases "reduce (getArrayRegion e) (roi s) ?g (Some (transpose ?g))")
    case Empty
    with Inr have "snd (update_frame e s) = ?s" by (simp add: update_frame_def)
    then have "snd (update_frame e s)
        = s\<lparr>img_view := Some (transpose ?g), bottom_label := bottom_label s,
             spec_curve := spec_curve s\<rparr>"
      by simp
    then show ?thesis by blast
  next
    case (Profile spec)
    show ?thesis
    proof (cases "axis_for s (length spec)")
      case (Inl err)
      with Inr Profile have "snd (update_frame e s) = ?s"
        by (simp add: update_frame_def axis_for_img_view)
      then have "snd (update_frame e s)
          = s\<lparr>img_view := Some (transpose ?g), bottom_label := bottom_label s,
               spec_curve := spec_curve s\<rparr>"
        by simp
      then show ?thesis by blast
    next
      case (Inr xl)
      obtain x lbl where xl: "xl = (x, lbl)" by (cases xl)
      from Inr xl have lbl: "lbl = (if calib_set s then Wavelength_nm else Pixel)"
        by (simp add: axis_for_label)
      from \<open>read (cam s) (cap_read e) = Inr frame\<close> Profile Inr xl
      have "snd (update_frame e s)
          = s\<lparr>img_view := Some (transpose ?g), bottom_label := lbl, spec_curve := (x, spec)\<rparr>"
        by (simp add: update_frame_def axis_for_img_view)
      with lbl show ?thesis by blast
    qed
  qed
qed

lemma update_frame_keeps:
  "roi (snd (update_frame e s)) = roi s"
  "cam (snd (update_frame e s)) = cam s"
  "l1 (snd (update_frame e s)) = l1 s"
  "l2 (snd (update_frame e s)) = l2 s"
  "spin_l1 (snd (update_frame e s)) = spin_l1 s"
  "spin_l2 (snd (update_frame e s)) = spin_l2 s"
  "chk_flip_h (snd (update_frame e s)) = chk_flip_h s"
  "chk_flip_v (snd (update_frame e s)) = chk_flip_v s"
  "calib_set (snd (update_frame e s)) = calib_set s"
  "slope (snd (update_frame e s)) = slope s"
  "intercept (snd (update_frame e s)) = intercept s"
  "px_to_nm (snd (update_frame e s)) = px_to_nm s"
  using update_frame_writes [of e s] by auto

lemma step_keeps_calibration:
  "ev \<noteq> Apply \<Longrightarrow>
     calib_set (step ev s) = calib_set s \<and> slope (step ev s) = slope s
     \<and> intercept (step ev s) = intercept s \<and> px_to_nm (step ev s) = px_to_nm s"
  by (cases ev) (simp_all add: update_frame_keeps set_flip_def)

lemma run_keeps_calibration:
  "Apply \<notin> set evs \<Longrightarrow>
     calib_set (run evs s) = calib_set s \<and> slope (run evs s) = slope s
     \<and> intercept (run evs s) = intercept s \<and> px_to_nm (run evs s) = px_to_nm s"
proof (induction evs arbitrary: s)
  case Nil
  show ?case by simp
next
  case (Cons ev evs)
  then have "ev \<noteq> Apply" and "Apply \<notin> set evs" by auto
  then show ?case
    using Cons.IH [of "step ev s"] step_keeps_calibration [of ev s] by simp
qed

lemma apply_calib_calib_set: "calib_set s \<Longrightarrow> calib_set (apply_calib s)"
  by (simp add: apply_calib_def Let_def)

lemma step_calib_set: "calib_set s \<Longrightarrow> calib_set (step ev s)"
  by (cases ev) (simp_all add: update_frame_keeps set_flip_def apply_calib_calib_set)

lemma run_calib_set: "calib_set s \<Longrightarrow> calib_set (run evs s)"
  by (induction evs arbitrary: s) (simp_all add: step_calib_set)

lemma apply_calib_label: "bottom_label (apply_calib s) = bottom_label s"
  by (simp add: apply_calib_def Let_def)

lemma step_label:
  "calib_set s \<Longrightarrow>
     bottom_label (step ev s) = bottom_label s \<or> bottom_label (step ev s) = Wavelength_nm"
proof (cases ev)
  case (Tick e)
  assume "calib_set s"
  then show ?thesis
    using update_frame_writes [of e s] Tick by auto
qed (simp_all add: set_flip_def apply_calib_label)

lemma run_label:
  "calib_set s \<Longrightarrow> bottom_label s = Wavelength_nm \<Longrightarrow> bottom_label (run evs s) = Wavelength_nm"
proof (induction evs arbitrary: s)
  case Nil
  then show ?case by simp
next
  case (Cons ev evs)
  have "calib_set (step ev s)" using Cons.prems(1) by (rule step_calib_set)
  moreover have "bottom_label (step ev s) = Wavelength_nm"
    using step_label [OF Cons.prems(1), of ev] Cons.prems(2) by auto
  ultimately show ?case using Cons.IH by simp
qed

section \<open>The reduction of a region\<close>

lemma inside_clamp:
  assumes "inside g r"
  shows "clamp_left g r = pos_x r" "clamp_top g r = pos_y r"
    "clamp_right g r = pos_x r + size_w r" "clamp_bottom g r = pos_y r + size_h r"
    "clamped_width g r = size_w r" "clamped_height g r = size_h r"
  using assms
  by (simp_all add: inside_def clamp_def clamp_left_def clamp_top_def clamped_width_def
      clamped_height_def clamp_right_def clamp_bottom_def)











lemma ramp_frame_shape: "frame_width ramp_frame = 10" "frame_height ramp_frame = 4"
  by (simp_all add: ramp_frame_def ramp_row_def frame_width_def frame_height_def)


lemma ramp_region_inside: "inside ramp_frame ramp_region"
  by (simp add: inside_def ramp_frame_shape ramp_region_def)



lemma ramp_region_clamped:
  "clamp_left ramp_frame ramp_region = 0" "clamp_top ramp_frame ramp_region = 0"
  "clamp_bottom ramp_frame ramp_region = 4"
  "clamped_width ramp_frame ramp_region = 10" "clamped_height ramp_frame ramp_region = 4"
  using inside_clamp [OF ramp_region_inside] by (simp_all add: ramp_region_def)

lemma ramp_region_array:
  "getArrayRegion_spec ramp_region ramp_frame item
   = Some [[0, 10, 20, 30, 40, 50, 60, 70, 80, 90], [0, 10, 20, 30, 40, 50, 60, 70, 80, 90],
           [0, 10, 20, 30, 40, 50, 60, 70, 80, 90], [0, 10, 20, 30, 40, 50, 60, 70, 80, 90]]"
proof -
  have "getArrayRegion_spec ramp_region ramp_frame item
      = Some (map (\<lambda>row. map (\<lambda>p. real (unat p)) (take 10 row)) (take 4 ramp_frame))"
    by (simp add: getArrayRegion_spec_def clamped_area_def ramp_region_clamped)
  also have "take 4 ramp_frame = ramp_frame"
    by (simp add: ramp_frame_def)
  also have "take 10 ramp_row = ramp_row"
    by (simp add: ramp_row_def)
  then have "map (\<lambda>row. map (\<lambda>p. real (unat p)) (take 10 row)) ramp_frame
      = [[0, 10, 20, 30, 40, 50, 60, 70, 80, 90], [0, 10, 20, 30, 40, 50, 60, 70, 80, 90],
         [0, 10, 20, 30, 40, 50, 60, 70, 80, 90], [0, 10, 20, 30, 40, 50, 60, 70, 80, 90]]"
    by (simp add: ramp_frame_def) (simp add: ramp_row_def)
  finally show ?thesis .
qed

lemma upt_10: "[0..<10] = [0, 1, 2, 3, 4, 5, 6, 7, 8, 9]"
  by (simp add: upt_rec)

lemma ramp_profile:
  "reduce getArrayRegion_spec ramp_region ramp_frame item
   = Profile [0, 10, 20, 30, 40, 50, 60, 70, 80, 90]"
proof -
  let ?a = "[[0, 10, 20, 30, 40, 50, 60, 70, 80, 90], [0, 10, 20, 30, 40, 50, 60, 70, 80, 90],
      [0, 10, 20, 30, 40, 50, 60, 70, 80, 90], [0, 10, 20, 30, 40, 50, 60, 70, 80, 90 :: real]]"
  have w: "frame_width ?a = 10" by (simp add: frame_width_def)
  have sz: "size_nd ?a \<noteq> 0" by (simp add: size_nd_def w)
  have m: "mean_axis0 ?a = [0, 10, 20, 30, 40, 50, 60, 70, 80, 90]"
    unfolding mean_axis0_def w upt_10 by simp
  show ?thesis
    using sz by (simp add: reduce_def ramp_region_array m)
qed



section \<open>Ticks without a profile\<close>

lemma update_frame_empty:
  assumes "read (cam s) (cap_read e) = Inr frame"
    and "reduce (getArrayRegion e) (roi s) (cvtColor e frame)
           (Some (transpose (cvtColor e frame))) = Empty"
  shows "update_frame e s = (None, s\<lparr>img_view := Some (transpose (cvtColor e frame))\<rparr>)"
  using assms by (simp add: update_frame_def)

text \<open>
  C9. On a tick whose frame is read but whose region reduces to nothing, the image shown is
  replaced by the new grey frame and nothing else changes: the curve and the axis label are
  those of before the tick, and no exception is raised.
\<close>

theorem empty_tick_shows_frame:
  assumes "read (cam s) (cap_read e) = Inr frame"
    and "reduce (getArrayRegion e) (roi s) (cvtColor e frame)
           (Some (transpose (cvtColor e frame))) = Empty"
  shows "update_frame e s = (None, s\<lparr>img_view := Some (transpose (cvtColor e frame))\<rparr>)
     \<and> img_view (snd (update_frame e s)) = Some (transpose (cvtColor e frame))
     \<and> spec_curve (snd (update_frame e s)) = spec_curve s
     \<and> bottom_label (snd (update_frame e s)) = bottom_label s"
  using update_frame_empty [OF assms] by simp

lemma ramp_read:
  "\<not> flip_h w \<Longrightarrow> \<not> flip_v w \<Longrightarrow> read w (cap_read ramp_env) = Inr ramp_frame"
  by (simp add: read_def ramp_env_def)

lemma init_gui_fields:
  "cam init_gui = \<lparr>flip_h = False, flip_v = False\<rparr>"
  "roi init_gui = \<lparr>pos_x = 200, pos_y = 200, size_w = 200, size_h = 100\<rparr>"
  "spec_curve init_gui = ([], [])" "bottom_label init_gui = Pixel" "img_view init_gui = None"
  "l1 init_gui = 0" "l2 init_gui = 0" "spin_l1 init_gui = 436" "spin_l2 init_gui = 546"
  "\<not> calib_set init_gui" "slope init_gui = None" "intercept init_gui = None"
  "\<not> px_to_nm init_gui" "\<not> chk_flip_h init_gui" "\<not> chk_flip_v init_gui"
  by (simp_all add: init_gui_def)

lemma init_roi_clamped:
  "clamped_width ramp_frame (roi init_gui) = 0" "clamped_height ramp_frame (roi init_gui) = 0"
  "clamped_area ramp_frame (roi init_gui) = 0"
  by (simp_all add: clamped_area_def clamped_width_def clamped_height_def clamp_right_def
      clamp_left_def clamp_bottom_def clamp_top_def clamp_def ramp_frame_shape init_gui_fields)

lemma init_roi_outside:
  "reduce getArrayRegion_spec (roi init_gui) ramp_frame item = Empty"
  by (simp add: reduce_def getArrayRegion_spec_def init_roi_clamped)

theorem empty_tick_shows_frame_witness:
  "read (cam init_gui) (cap_read ramp_env) = Inr ramp_frame
   \<and> reduce (getArrayRegion ramp_env) (roi init_gui) (cvtColor ramp_env ramp_frame)
        (Some (transpose (cvtColor ramp_env ramp_frame))) = Empty
   \<and> update_frame ramp_env init_gui = (None, init_gui\<lparr>img_view := Some (transpose ramp_frame)\<rparr>)
   \<and> spec_curve (snd (update_frame ramp_env init_gui)) = ([], [])
   \<and> bottom_label (snd (update_frame ramp_env init_gui)) = Pixel"
proof -
  have r: "read (cam init_gui) (cap_read ramp_env) = Inr ramp_frame"
    by (simp add: ramp_read init_gui_fields)
  have c: "cvtColor ramp_env ramp_frame = ramp_frame" "getArrayRegion ramp_env = getArrayRegion_spec"
    by (simp_all add: ramp_env_def)
  have e: "reduce (getArrayRegion ramp_env) (roi init_gui) (cvtColor ramp_env ramp_frame)
        (Some (transpose (cvtColor ramp_env ramp_frame))) = Empty"
    unfolding c by (rule init_roi_outside)
  show ?thesis
    using empty_tick_shows_frame [OF r e] r e by (simp add: c init_gui_fields)
qed

lemma clamped_width_narrow: "size_w r < 1 \<Longrightarrow> clamped_width g r < 1"
  by (auto simp: clamped_width_def clamp_right_def clamp_left_def clamp_def min_def max_def)

lemma no_data:
  assumes "clamped_area g r \<le> 0 \<or> clamped_width g r \<le> 0 \<or> clamped_height g r \<le> 0
             \<or> clamped_width g r < 1 \<or> size_w r < 1"
  shows "getArrayRegion_spec r g item = None"
proof (cases "clamped_width g r < 1")
  case True
  then show ?thesis by (simp add: getArrayRegion_spec_def)
next
  case False
  then have w: "1 \<le> clamped_width g r" by simp
  have "\<not> size_w r < 1" using False clamped_width_narrow [of r g] by blast
  with assms w have "clamped_area g r \<le> 0 \<or> clamped_height g r \<le> 0" by auto
  moreover have "clamped_area g r \<le> 0" if "clamped_height g r \<le> 0"
    unfolding clamped_area_def using w that by (intro mult_nonneg_nonpos) simp_all
  ultimately have "clamped_area g r \<le> 0" by blast
  then show ?thesis by (simp add: getArrayRegion_spec_def)
qed

text \<open>
  C6. With the extraction of the spec: when the region, clamped to the frame, has zero or
  negative area (zero or negative width or height, as for a region that lies outside the
  frame), or when the region or its clamped part is narrower than one pixel column, the
  reduction is \<open>Empty\<close>; on such a tick \<open>update_frame\<close> returns after showing the frame,
  without an exception and without touching the curve, which stays the one of before the
  tick.
\<close>

theorem degenerate_region_keeps_curve:
  assumes "getArrayRegion e = getArrayRegion_spec"
    and "read (cam s) (cap_read e) = Inr frame"
    and "clamped_area (cvtColor e frame) (roi s) \<le> 0
       \<or> clamped_width (cvtColor e frame) (roi s) \<le> 0
       \<or> clamped_height (cvtColor e frame) (roi s) \<le> 0
       \<or> clamped_width (cvtColor e frame) (roi s) < 1
       \<or> size_w (roi s) < 1"
  shows "reduce (getArrayRegion e) (roi s) (cvtColor e frame) item = Empty
     \<and> fst (update_frame e s) = None
     \<and> spec_curve (snd (update_frame e s)) = spec_curve s
     \<and> bottom_label (snd (update_frame e s)) = bottom_label s"
proof -
  let ?g = "cvtColor e frame"
  have none: "getArrayRegion_spec (roi s) ?g it = None" for it
    using assms(3) by (rule no_data)
  have red: "reduce (getArrayRegion e) (roi s) ?g it = Empty" for it
    by (simp add: reduce_def assms(1) none)
  show ?thesis
    using update_frame_empty [OF assms(2) red] red by simp
qed

theorem degenerate_region_keeps_curve_witness:
  "getArrayRegion ramp_env = getArrayRegion_spec
   \<and> read (cam init_gui) (cap_read ramp_env) = Inr ramp_frame
   \<and> clamped_area (cvtColor ramp_env ramp_frame) (roi init_gui) = 0
   \<and> reduce (getArrayRegion ramp_env) (roi init_gui) (cvtColor ramp_env ramp_frame) None = Empty
   \<and> fst (update_frame ramp_env init_gui) = None
   \<and> spec_curve (snd (update_frame ramp_env init_gui)) = ([], [])
   \<and> read (cam (init_gui\<lparr>roi := narrow_region\<rparr>)) (cap_read ramp_env) = Inr ramp_frame
   \<and> size_w (roi (init_gui\<lparr>roi := narrow_region\<rparr>)) < 1
   \<and> fst (update_frame ramp_env (init_gui\<lparr>roi := narrow_region\<rparr>)) = None
   \<and> spec_curve (snd (update_frame ramp_env (init_gui\<lparr>roi := narrow_region\<rparr>))) = ([], [])"
proof -
  let ?n = "init_gui\<lparr>roi := narrow_region\<rparr>"
  have g: "getArrayRegion ramp_env = getArrayRegion_spec" "cvtColor ramp_env ramp_frame = ramp_frame"
    by (simp_all add: ramp_env_def)
  have r: "read (cam init_gui) (cap_read ramp_env) = Inr ramp_frame"
    "read (cam ?n) (cap_read ramp_env) = Inr ramp_frame"
    by (simp_all add: ramp_read init_gui_fields)
  have a: "clamped_area (cvtColor ramp_env ramp_frame) (roi init_gui) = 0"
    by (simp add: g init_roi_clamped)
  have w: "size_w (roi ?n) < 1" by (simp add: narrow_region_def)
  note t = degenerate_region_keeps_curve [OF g(1)]
  have d1: "clamped_area (cvtColor ramp_env ramp_frame) (roi init_gui) \<le> 0
       \<or> clamped_width (cvtColor ramp_env ramp_frame) (roi init_gui) \<le> 0
       \<or> clamped_height (cvtColor ramp_env ramp_frame) (roi init_gui) \<le> 0
       \<or> clamped_width (cvtColor ramp_env ramp_frame) (roi init_gui) < 1
       \<or> size_w (roi init_gui) < 1"
    using a by simp
  have d2: "clamped_area (cvtColor ramp_env ramp_frame) (roi ?n) \<le> 0
       \<or> clamped_width (cvtColor ramp_env ramp_frame) (roi ?n) \<le> 0
       \<or> clamped_height (cvtColor ramp_env ramp_frame) (roi ?n) \<le> 0
       \<or> clamped_width (cvtColor ramp_env ramp_frame) (roi ?n) < 1
       \<or> size_w (roi ?n) < 1"
    using w by blast
  have c: "spec_curve init_gui = ([], [])" "spec_curve ?n = ([], [])"
    by (simp_all add: init_gui_fields)
  show ?thesis
    using t [OF r(1) d1, of None] t [OF r(2) d2, of None] g(1) r a w
    unfolding c by blast
qed

section \<open>The calibration state over the life of the window\<close>

text \<open>
  C10. A successful \<open>apply_calib\<close> writes the four calibration attributes and nothing else:
  the ROI, the camera with its flip flags, the check boxes, the curve, its axis label, the
  image, the cursor lines and the spin boxes are those of before. The slope and the
  intercept are computed from the cursor positions and the wavelengths of that moment, and
  no later operation other than a new click on the button (cursor moves, edits of the
  wavelengths, ticks, ROI edits, flips) changes the mapping installed.
\<close>

theorem apply_calib_frame:
  assumes "l1 s \<noteq> l2 s"
  shows "apply_calib s
           = s\<lparr>slope := Some ((spin_l2 s - spin_l1 s) / (l2 s - l1 s)),
               intercept := Some (spin_l1 s - (spin_l2 s - spin_l1 s) / (l2 s - l1 s) * l1 s),
               px_to_nm := True, calib_set := True\<rparr>
     \<and> roi (apply_calib s) = roi s \<and> cam (apply_calib s) = cam s
     \<and> chk_flip_h (apply_calib s) = chk_flip_h s \<and> chk_flip_v (apply_calib s) = chk_flip_v s
     \<and> spec_curve (apply_calib s) = spec_curve s
     \<and> bottom_label (apply_calib s) = bottom_label s
     \<and> img_view (apply_calib s) = img_view s
     \<and> l1 (apply_calib s) = l1 s \<and> l2 (apply_calib s) = l2 s
     \<and> spin_l1 (apply_calib s) = spin_l1 s \<and> spin_l2 (apply_calib s) = spin_l2 s
     \<and> (Apply \<notin> set evs \<longrightarrow>
          slope (run evs (apply_calib s)) = slope (apply_calib s)
          \<and> intercept (run evs (apply_calib s)) = intercept (apply_calib s)
          \<and> model_of (run evs (apply_calib s)) = model_of (apply_calib s)
          \<and> px_to_nm_call (run evs (apply_calib s)) px = px_to_nm_call (apply_calib s) px)"
proof -
  have ap: "apply_calib s
           = s\<lparr>slope := Some ((spin_l2 s - spin_l1 s) / (l2 s - l1 s)),
               intercept := Some (spin_l1 s - (spin_l2 s - spin_l1 s) / (l2 s - l1 s) * l1 s),
               px_to_nm := True, calib_set := True\<rparr>"
    using assms by (simp add: apply_calib_def Let_def)
  have later: "model_of (run evs t) = model_of t
      \<and> px_to_nm_call (run evs t) px = px_to_nm_call t px"
    if "Apply \<notin> set evs" for t
  proof -
    from run_keeps_calibration [OF that, of t]
    have e: "calib_set (run evs t) = calib_set t" "slope (run evs t) = slope t"
      "intercept (run evs t) = intercept t" "px_to_nm (run evs t) = px_to_nm t"
      by simp_all
    show ?thesis unfolding model_of_def px_to_nm_call_def e by simp
  qed
  show ?thesis
    using later [of "apply_calib s"] run_keeps_calibration [of evs "apply_calib s"]
    by (simp add: ap)
qed

theorem apply_calib_frame_witness:
  "l1 (init_gui\<lparr>l1 := 100, l2 := 300\<rparr>) \<noteq> l2 (init_gui\<lparr>l1 := 100, l2 := 300\<rparr>)
   \<and> Apply \<notin> set [Cursor1_move 120, Spin2_edit 600, Cursor2_move 10, Tick ramp_env]
   \<and> roi (apply_calib (init_gui\<lparr>l1 := 100, l2 := 300\<rparr>)) = roi init_gui
   \<and> cam (apply_calib (init_gui\<lparr>l1 := 100, l2 := 300\<rparr>)) = cam init_gui
   \<and> spec_curve (apply_calib (init_gui\<lparr>l1 := 100, l2 := 300\<rparr>)) = ([], [])
   \<and> model_of (apply_calib (init_gui\<lparr>l1 := 100, l2 := 300\<rparr>)) = Linear 0.55 381
   \<and> model_of (run [Cursor1_move 120, Spin2_edit 600, Cursor2_move 10, Tick ramp_env]
                 (apply_calib (init_gui\<lparr>l1 := 100, l2 := 300\<rparr>))) = Linear 0.55 381
   \<and> px_to_nm_call (run [Cursor1_move 120, Spin2_edit 600, Cursor2_move 10, Tick ramp_env]
                 (apply_calib (init_gui\<lparr>l1 := 100, l2 := 300\<rparr>))) 200 = Inr 491"
proof -
  let ?s = "init_gui\<lparr>l1 := 100, l2 := 300\<rparr>"
  let ?evs = "[Cursor1_move 120, Spin2_edit 600, Cursor2_move 10, Tick ramp_env]"
  have d: "l1 ?s \<noteq> l2 ?s" by simp
  have n: "Apply \<notin> set ?evs" by simp
  have m: "model_of (apply_calib ?s) = Linear 0.55 381"
    by (simp add: model_of_def apply_calib_def init_gui_fields)
  have p: "px_to_nm_call (apply_calib ?s) 200 = Inr 491"
    by (simp add: px_to_nm_call_def apply_calib_def init_gui_fields)
  note t = apply_calib_frame [OF d, of ?evs 200]
  from t have f: "roi (apply_calib ?s) = roi ?s" "cam (apply_calib ?s) = cam ?s"
    "spec_curve (apply_calib ?s) = spec_curve ?s"
    by blast+
  from t n have k: "model_of (run ?evs (apply_calib ?s)) = model_of (apply_calib ?s)"
    "px_to_nm_call (run ?evs (apply_calib ?s)) 200 = px_to_nm_call (apply_calib ?s) 200"
    by blast+
  have i: "roi ?s = roi init_gui" "cam ?s = cam init_gui" "spec_curve ?s = ([], [])"
    by (simp_all add: init_gui_fields)
  show ?thesis
    unfolding k f i m p using d n by simp
qed

section \<open>The calibration is permanent\<close>

lemma calib_attrs_init: "calib_attrs init_gui"
  by (simp add: calib_attrs_def init_gui_fields)

lemma calib_attrs_apply: "calib_attrs s \<Longrightarrow> calib_attrs (apply_calib s)"
  by (simp add: calib_attrs_def apply_calib_def Let_def)

lemma calib_attrs_step: "calib_attrs s \<Longrightarrow> calib_attrs (step ev s)"
proof (cases "ev = Apply")
  case True
  assume "calib_attrs s"
  then show ?thesis using True by (simp add: calib_attrs_apply)
next
  case False
  assume "calib_attrs s"
  then show ?thesis
    using step_keeps_calibration [OF False, of s] by (simp add: calib_attrs_def)
qed

lemma calib_attrs_run: "calib_attrs s \<Longrightarrow> calib_attrs (run evs s)"
  by (induction evs arbitrary: s) (simp_all add: calib_attrs_step)

lemma model_of_Unset: "calib_attrs s \<Longrightarrow> model_of s = Unset \<longleftrightarrow> \<not> calib_set s"
  by (auto simp: calib_attrs_def model_of_def)

lemma run_append: "run (evs @ evs') s = run evs' (run evs s)"
  by (induction evs arbitrary: s) simp_all

lemma step_sets_calib:
  assumes "\<not> calib_set s" and "calib_set (step ev s)"
  shows "ev = Apply \<and> l1 s \<noteq> l2 s"
proof (cases "ev = Apply")
  case True
  have "l1 s \<noteq> l2 s"
  proof
    assume "l1 s = l2 s"
    then have "step ev s = s" using True by (simp add: apply_calib_def)
    then show False using assms by simp
  qed
  then show ?thesis using True by simp
next
  case False
  then have "calib_set (step ev s) = calib_set s"
    using step_keeps_calibration [OF False, of s] by simp
  then show ?thesis using assms by simp
qed

lemma tick_never_raises:
  assumes "calib_attrs s" and "fst (cap_read e)"
  shows "fst (update_frame e s) = None"
proof -
  have "\<exists>frame. read (cam s) (cap_read e) = Inr frame"
    using assms(2) by (cases "cap_read e") (simp add: read_def Let_def)
  then obtain frame where r: "read (cam s) (cap_read e) = Inr frame" ..
  have ax: "\<exists>x lbl. axis_for (s\<lparr>img_view := v\<rparr>) n = Inr (x, lbl)" for v n
    using assms(1)
    by (auto simp: calib_attrs_def axis_for_def px_to_nm_array_def Let_def)
  show ?thesis
  proof (cases "reduce (getArrayRegion e) (roi s) (cvtColor e frame)
      (Some (transpose (cvtColor e frame)))")
    case Empty
    then show ?thesis using r by (simp add: update_frame_def)
  next
    case (Profile spec)
    obtain x lbl where "axis_for (s\<lparr>img_view := Some (transpose (cvtColor e frame))\<rparr>)
        (length spec) = Inr (x, lbl)"
      using ax by blast
    then show ?thesis using r Profile by (simp add: update_frame_def)
  qed
qed

text \<open>
  C8. The window starts without calibration. The flag can only be raised by a click on the
  calibration button with the two cursor lines at distinct positions, and no operation ever
  lowers it: after any sequence of ticks, clicks and edits the calibration is still there.
  In a calibrated window no operation labels the bottom axis in pixels again: each one
  leaves the label as it is or sets it to the wavelength, so once the axis shows
  wavelengths it does so for ever.
\<close>

theorem calibration_is_permanent:
  "model_of init_gui = Unset
   \<and> (\<not> calib_set s \<and> calib_set (step ev s) \<longrightarrow> ev = Apply \<and> l1 s \<noteq> l2 s)
   \<and> (calib_set s \<longrightarrow> calib_set (run evs s))
   \<and> (model_of (run evs init_gui) \<noteq> Unset \<longrightarrow> model_of (run (evs @ evs') init_gui) \<noteq> Unset)
   \<and> (calib_set s \<longrightarrow>
        bottom_label (step ev s) = bottom_label s \<or> bottom_label (step ev s) = Wavelength_nm)
   \<and> (calib_set s \<and> bottom_label s = Wavelength_nm \<longrightarrow>
        bottom_label (run evs s) = Wavelength_nm)"
proof -
  have a: "model_of init_gui = Unset"
    by (simp add: model_of_def init_gui_fields)
  have b: "model_of (run evs init_gui) \<noteq> Unset \<longrightarrow> model_of (run (evs @ evs') init_gui) \<noteq> Unset"
  proof
    assume m: "model_of (run evs init_gui) \<noteq> Unset"
    have i: "calib_attrs (run evs init_gui)" "calib_attrs (run (evs @ evs') init_gui)"
      using calib_attrs_init by (rule calib_attrs_run)+
    from m i(1) have "calib_set (run evs init_gui)" by (simp add: model_of_Unset)
    then have "calib_set (run (evs @ evs') init_gui)"
      unfolding run_append by (rule run_calib_set)
    then show "model_of (run (evs @ evs') init_gui) \<noteq> Unset"
      using i(2) by (simp add: model_of_Unset)
  qed
  show ?thesis
    using a b step_sets_calib [of s ev] run_calib_set [of s evs] step_label [of s ev]
      run_label [of s evs]
    by blast
qed

section \<open>A tick with a profile\<close>

lemma update_frame_profile:
  assumes "read (cam s) (cap_read e) = Inr frame"
    and "reduce (getArrayRegion e) (roi s) (cvtColor e frame)
           (Some (transpose (cvtColor e frame))) = Profile spec"
    and "axis_for s (length spec) = Inr (x, lbl)"
  shows "update_frame e s
         = (None, s\<lparr>img_view := Some (transpose (cvtColor e frame)), bottom_label := lbl,
                     spec_curve := (x, spec)\<rparr>)"
  using assms by (simp add: update_frame_def axis_for_img_view)

lemma ramp_tick:
  assumes "roi s = ramp_region" and "\<not> flip_h (cam s)" and "\<not> flip_v (cam s)"
    and "axis_for s 10 = Inr (x, lbl)"
  shows "update_frame ramp_env s
         = (None, s\<lparr>img_view := Some (transpose ramp_frame), bottom_label := lbl,
                     spec_curve := (x, [0, 10, 20, 30, 40, 50, 60, 70, 80, 90])\<rparr>)"
proof -
  have r: "read (cam s) (cap_read ramp_env) = Inr ramp_frame"
    using assms(2,3) by (rule ramp_read)
  have g: "getArrayRegion ramp_env = getArrayRegion_spec" "cvtColor ramp_env ramp_frame = ramp_frame"
    by (simp_all add: ramp_env_def)
  let ?p = "[0, 10, 20, 30, 40, 50, 60, 70, 80, 90 :: real]"
  have p: "reduce (getArrayRegion ramp_env) (roi s) (cvtColor ramp_env ramp_frame)
      (Some (transpose (cvtColor ramp_env ramp_frame))) = Profile ?p"
    unfolding g assms(1) by (rule ramp_profile)
  have "length ?p = 10" by simp
  then have a: "axis_for s (length ?p) = Inr (x, lbl)"
    using assms(4) by (simp only:)
  show ?thesis
    using update_frame_profile [OF r p a] by (simp only: g)
qed

text \<open>
  Scenario 2 of the spec as a whole tick: on a fresh window whose ROI has been set to the
  region (0, 0, 10, 4), the frame whose column \<open>c\<close> holds \<open>10 * c\<close> gives the curve
  \<open>0, 10, ..., 90\<close> over the pixel indices \<open>0, ..., 9\<close>.
\<close>

lemma ramp_tick_uncalibrated:
  "update_frame ramp_env (init_gui\<lparr>roi := ramp_region\<rparr>)
   = (None, init_gui\<lparr>roi := ramp_region, img_view := Some (transpose ramp_frame),
        bottom_label := Pixel,
        spec_curve := ([0, 1, 2, 3, 4, 5, 6, 7, 8, 9], [0, 10, 20, 30, 40, 50, 60, 70, 80, 90])\<rparr>)"
proof -
  have "axis_for (init_gui\<lparr>roi := ramp_region\<rparr>) 10 = Inr ([0, 1, 2, 3, 4, 5, 6, 7, 8, 9], Pixel)"
    by (simp add: axis_for_def arange_def upt_10 init_gui_fields)
  then show ?thesis
    by (intro ramp_tick) (simp_all add: init_gui_fields)
qed

theorem calibration_is_permanent_witness:
  "\<not> calib_set (init_gui\<lparr>l1 := 100, l2 := 300\<rparr>)
   \<and> calib_set (step (Apply :: 8 word event) (init_gui\<lparr>l1 := 100, l2 := 300\<rparr>))
   \<and> l1 (init_gui\<lparr>l1 := 100, l2 := 300\<rparr>) \<noteq> l2 (init_gui\<lparr>l1 := 100, l2 := 300\<rparr>)
   \<and> model_of (run [Cursor1_move 100, Cursor2_move 300, Apply :: 8 word event] init_gui) \<noteq> Unset
   \<and> model_of (run ([Cursor1_move 100, Cursor2_move 300, Apply]
                     @ [Cursor2_move 100, Apply, Tick no_frame, Tick ramp_env]) init_gui) \<noteq> Unset
   \<and> calib_set (run [Apply, Roi_edit ramp_region, Tick ramp_env] (init_gui\<lparr>l1 := 100, l2 := 300\<rparr>))
   \<and> bottom_label (run [Apply, Roi_edit ramp_region, Tick ramp_env]
        (init_gui\<lparr>l1 := 100, l2 := 300\<rparr>)) = Wavelength_nm
   \<and> calib_set (run [Cursor1_move 7, Cursor2_move 7, Apply, Roi_edit flat_region,
          Flip_v_toggle True, Tick ramp_env, Tick no_frame, Spin1_edit 500]
        (run [Apply, Roi_edit ramp_region, Tick ramp_env] (init_gui\<lparr>l1 := 100, l2 := 300\<rparr>)))
   \<and> bottom_label (run [Cursor1_move 7, Cursor2_move 7, Apply, Roi_edit flat_region,
          Flip_v_toggle True, Tick ramp_env, Tick no_frame, Spin1_edit 500]
        (run [Apply, Roi_edit ramp_region, Tick ramp_env] (init_gui\<lparr>l1 := 100, l2 := 300\<rparr>)))
       = Wavelength_nm"
proof -
  let ?s0 = "init_gui\<lparr>l1 := 100, l2 := 300\<rparr>"
  let ?c = "(apply_calib ?s0)\<lparr>roi := ramp_region\<rparr>"
  let ?evs1 = "[Apply, Roi_edit ramp_region, Tick ramp_env] :: 8 word event list"
  let ?evs2 = "[Cursor1_move 7, Cursor2_move 7, Apply, Roi_edit flat_region,
          Flip_v_toggle True, Tick ramp_env, Tick no_frame, Spin1_edit 500]"
  let ?pre = "[Cursor1_move 100, Cursor2_move 300, Apply] :: 8 word event list"
  let ?post = "[Cursor2_move 100, Apply, Tick no_frame, Tick ramp_env]"
  have n: "\<not> calib_set ?s0" by (simp add: init_gui_fields)
  have d: "l1 ?s0 \<noteq> l2 ?s0" by simp
  have c: "calib_set (step (Apply :: 8 word event) ?s0)"
    by (simp add: apply_calib_def Let_def)
  have m: "model_of (run ?pre init_gui) \<noteq> Unset"
    by (simp add: model_of_def apply_calib_def Let_def)
  have ax: "\<exists>x. axis_for ?c 10 = Inr (x, Wavelength_nm)"
    by (simp add: axis_for_def px_to_nm_array_def apply_calib_def Let_def)
  then obtain x where x: "axis_for ?c 10 = Inr (x, Wavelength_nm)" ..
  have t: "update_frame ramp_env ?c
      = (None, ?c\<lparr>img_view := Some (transpose ramp_frame), bottom_label := Wavelength_nm,
                   spec_curve := (x, [0, 10, 20, 30, 40, 50, 60, 70, 80, 90])\<rparr>)"
    using x by (intro ramp_tick) (simp_all add: apply_calib_def Let_def init_gui_fields)
  have r: "run ?evs1 ?s0 = snd (update_frame ramp_env ?c)" by simp
  have c1: "calib_set (run ?evs1 ?s0)" unfolding r t by (simp add: apply_calib_def Let_def)
  have l1: "bottom_label (run ?evs1 ?s0) = Wavelength_nm" unfolding r t by simp
  note inst = calibration_is_permanent [of ?s0 Apply]
    calibration_is_permanent [of "run ?evs1 ?s0" _ ?evs2]
    calibration_is_permanent [of _ _ ?pre ?post]
  from inst(3) m have m2: "model_of (run (?pre @ ?post) init_gui) \<noteq> Unset" by blast
  from inst(2) c1 l1 have k: "calib_set (run ?evs2 (run ?evs1 ?s0))"
    "bottom_label (run ?evs2 (run ?evs1 ?s0)) = Wavelength_nm"
    by blast+
  from inst(1) n c d m m2 c1 l1 k show ?thesis by blast
qed

end
